theory Spec2Isabelle
  imports Main
begin

section \<open>Strings and paths\<close>

text \<open>
  Python strings are modelled as \<^typ>\<open>string\<close>. The three string operations of the
  standard library that the generator uses are written out: \<^verbatim>\<open>str.split(sep)\<close>,
  \<^verbatim>\<open>sep.join(xs)\<close> and \<^verbatim>\<open>str.replace(old, new)\<close>.
\<close>

text \<open>\<^verbatim>\<open>s.split(sep)\<close> for a one-character separator: always at least one segment.\<close>

fun split :: "char \<Rightarrow> string \<Rightarrow> string list" where
  "split sep [] = [[]]"
| "split sep (c # cs) =
     (if c = sep then [] # split sep cs
      else (case split sep cs of
              [] \<Rightarrow> [[c]]
            | w # ws \<Rightarrow> (c # w) # ws))"

text \<open>\<^verbatim>\<open>sep.join(xs)\<close>.\<close>

fun join :: "string \<Rightarrow> string list \<Rightarrow> string" where
  "join sep [] = []"
| "join sep [x] = x"
| "join sep (x # y # ys) = x @ sep @ join sep (y # ys)"

text \<open>Is \<open>old\<close> a prefix of the text?\<close>

definition startswith :: "string \<Rightarrow> string \<Rightarrow> bool" where
  "startswith s old = (take (length old) s = old)"

text \<open>
  \<^verbatim>\<open>s.replace(old, new)\<close>: every non-overlapping occurrence, scanning from the left.
  For the empty \<open>old\<close> Python puts \<open>new\<close> before every character and at the end.
\<close>

function replace :: "string \<Rightarrow> string \<Rightarrow> string \<Rightarrow> string" where
  "replace [] new s = new @ concat (map (\<lambda>c. c # new) s)"
| "replace (a # old) new [] = []"
| "replace (a # old) new (c # cs) =
     (if startswith (c # cs) (a # old)
      then new @ replace (a # old) new (drop (length (a # old)) (c # cs))
      else c # replace (a # old) new cs)"
  by pat_completeness auto
termination
  by (relation "measure (\<lambda>(old, new, s). length s)") auto




text \<open>
  A \<^verbatim>\<open>pathlib.Path\<close> is the list of its parts, as \<^verbatim>\<open>Path.parts\<close> gives them: an
  absolute POSIX path starts with the part \<open>''/''\<close>.
\<close>

type_synonym path = "string list"

text \<open>\<^verbatim>\<open>str(path)\<close>.\<close>

definition path_str :: "path \<Rightarrow> string" where
  "path_str p =
     (case p of
        [] \<Rightarrow> ''.''
      | r # rest \<Rightarrow> if r = ''/'' then r @ join ''/'' rest else join ''/'' p)"

text \<open>\<^verbatim>\<open>path / child\<close>.\<close>

definition path_child :: "path \<Rightarrow> string \<Rightarrow> path" where
  "path_child p child = p @ [child]"

text \<open>\<^verbatim>\<open>path.name\<close>: the last part, empty for the root and for the empty path.\<close>

definition path_name :: "path \<Rightarrow> string" where
  "path_name p = (if p = [] \<or> p = [''/''] then [] else last p)"

text \<open>\<^verbatim>\<open>s.rfind(c)\<close>, with \<open>None\<close> for Python's \<open>-1\<close>.\<close>

definition rfind :: "char \<Rightarrow> string \<Rightarrow> nat option" where
  "rfind c s =
     (if c \<in> set s
      then Some (length s - 1 - length (takeWhile (\<lambda>x. x \<noteq> c) (rev s)))
      else None)"

text \<open>
  \<^verbatim>\<open>path.suffix\<close> and \<^verbatim>\<open>path.stem\<close>: the name is cut at its last dot when that
  dot is neither the first nor the last character of the name.
\<close>

definition path_suffix :: "path \<Rightarrow> string" where
  "path_suffix p =
     (let name = path_name p in
      case rfind CHR ''.'' name of
        None \<Rightarrow> []
      | Some i \<Rightarrow> if 0 < i \<and> i < length name - 1 then drop i name else [])"

definition path_stem :: "path \<Rightarrow> string" where
  "path_stem p =
     (let name = path_name p in
      case rfind CHR ''.'' name of
        None \<Rightarrow> name
      | Some i \<Rightarrow> if 0 < i \<and> i < length name - 1 then take i name else name)"

section \<open>Errors\<close>

text \<open>
  Every exception the generator can raise is a value. The specification's error kinds
  are the exceptions of the code: a pre-existing project folder is a \<^verbatim>\<open>ValueError\<close>,
  a part string with too few segments is the \<^verbatim>\<open>IndexError\<close> of the list access, an
  unknown constraint suffix is a \<^verbatim>\<open>NotImplementedError\<close>.
\<close>

datatype error =
    ValueError string
  | IndexError
  | NotImplementedError string
  | TypeError string
  | AttributeError string
  | OSError string

definition DirectoryExists :: "path \<Rightarrow> error" where
  "DirectoryExists project_path = ValueError (''Folder already exists: '' @ path_str project_path)"

definition MalformedPartIdentifier :: error where
  "MalformedPartIdentifier = IndexError"

definition UnsupportedConstraintKind :: "path \<Rightarrow> error" where
  "UnsupportedConstraintKind file = NotImplementedError (''Can not handle file: '' @ path_str file)"

text \<open>\<^verbatim>\<open>xs[i]\<close> on a list, for a non-negative index.\<close>

definition index :: "'a list \<Rightarrow> nat \<Rightarrow> error + 'a" where
  "index xs i = (if i < length xs then Inr (xs ! i) else Inl IndexError)"

section \<open>Decomposing the part string\<close>

text \<open>
  Lines 49 to 56 of \<^verbatim>\<open>LiberoTcl.create\<close>: the part is split on dashes, the first
  three segments are the device, the speed and the package in this order, the fourth
  is the temperature range, \<open>COM\<close> when there is none.
\<close>

record part_fields =
  part_device :: string
  part_speed :: string
  part_package :: string
  part_temp_range :: string

definition decompose_part :: "string \<Rightarrow> error + part_fields" where
  "decompose_part part =
     (let parts = split CHR ''-'' part in
      (case index parts 0 of Inl e \<Rightarrow> Inl e | Inr device \<Rightarrow>
      (case index parts 1 of Inl e \<Rightarrow> Inl e | Inr speed \<Rightarrow>
      (case index parts 2 of Inl e \<Rightarrow> Inl e | Inr package \<Rightarrow>
      (if length parts > 3
       then (case index parts 3 of Inl e \<Rightarrow> Inl e | Inr temp_range \<Rightarrow>
               Inr \<lparr>part_device = device, part_speed = speed, part_package = package,
                    part_temp_range = temp_range\<rparr>)
       else Inr \<lparr>part_device = device, part_speed = speed, part_package = package,
                 part_temp_range = ''COM''\<rparr>)))))"

section \<open>Data model\<close>

text \<open>
  The collaborators of the generator, with the attributes it reads. A module answers
  its three queries from the bag of keyword arguments it is given. A generic value is
  a boolean, an integer or a string; a dictionary of generics keeps its insertion
  order, so it is a list of pairs.
\<close>

datatype generic_value = GBool bool | GInt int | GStr string

type_synonym generics = "(string \<times> generic_value) list"

datatype arg_value = Generics generics | Text string | Number int | Flag bool

type_synonym arguments = "string \<rightharpoonup> arg_value"

record hdl_file =
  hdl_path :: path

record ip_core_file =
  ip_path :: path

record constraint =
  cfile :: path

datatype build_step_hook = BuildStepTclHook path string

record module =
  mod_name :: string
  library_name :: string
  get_synthesis_files :: "arguments \<Rightarrow> hdl_file list"
  get_ip_core_files :: "arguments \<Rightarrow> ip_core_file list"
  get_scoped_constraints :: "arguments \<Rightarrow> constraint list"

text \<open>
  What the generator takes from its surroundings: \<^verbatim>\<open>Path.resolve\<close> and
  \<^verbatim>\<open>os.path.relpath\<close> read the file system and the working directory, and
  \<^verbatim>\<open>template.tcl\<close> is a file of the installed package. They are parameters.
\<close>

record env =
  resolve :: "path \<Rightarrow> path"
  relpath :: "path \<Rightarrow> path \<Rightarrow> string"
  template_tcl :: string

abbreviation nl :: string where
  "nl \<equiv> [CHR 0x0A]"

abbreviation tab :: string where
  "tab \<equiv> [CHR 0x09]"

section \<open>The script generator of tcl.py\<close>

text \<open>\<^verbatim>\<open>to_tcl_path(path, project_folder, cygwin_root="C:\\cygwin64")\<close> of tcl.py.\<close>

definition to_tcl_path :: "env \<Rightarrow> path \<Rightarrow> path \<Rightarrow> string" where
  "to_tcl_path env path project_folder = relpath env (resolve env path) project_folder"

text \<open>
  Binding the arguments of a call of \<^verbatim>\<open>to_tcl_path\<close>: \<open>path\<close> and
  \<open>project_folder\<close> have no default value, so a call that passes the path alone
  raises \<^verbatim>\<open>TypeError\<close> before the body runs. The three helper methods of
  \<^verbatim>\<open>LiberoTcl\<close> call it that way.
\<close>

definition call_to_tcl_path :: "env \<Rightarrow> path \<Rightarrow> path option \<Rightarrow> error + string" where
  "call_to_tcl_path env path project_folder =
     (case project_folder of
        None \<Rightarrow>
          Inl (TypeError ''to_tcl_path() missing 1 required positional argument: project_folder'')
      | Some folder \<Rightarrow> Inr (to_tcl_path env path folder))"

text \<open>
  \<^verbatim>\<open>xs.sort(key=key, reverse=True)\<close> for a boolean key. Python's sort is stable, also
  when reversed: the list is reversed, sorted in ascending order by a stable sort,
  and reversed again.
\<close>

definition sort_reverse :: "('a \<Rightarrow> bool) \<Rightarrow> 'a list \<Rightarrow> 'a list" where
  "sort_reverse key xs = rev (sort_key key (rev xs))"

text \<open>Lines 75 to 81: the statement of one synthesis file.\<close>

definition hdl_statement :: "env \<Rightarrow> path \<Rightarrow> string \<Rightarrow> module \<Rightarrow> hdl_file \<Rightarrow> string" where
  "hdl_statement env project_folder top' m hdl_file =
     (let hdl_file_path = to_tcl_path env (hdl_path hdl_file) project_folder in
      if library_name m = top'
      then ''fpga_file {'' @ hdl_file_path @ ''}'' @ nl
      else ''fpga_file {'' @ hdl_file_path @ ''} '' @ library_name m @ nl)"

text \<open>Lines 83 to 85: the statement of one IP core file, empty unless it is a \<open>.cxf\<close>.\<close>

definition ip_core_statement :: "env \<Rightarrow> path \<Rightarrow> ip_core_file \<Rightarrow> string" where
  "ip_core_statement env project_folder ip_core_file =
     (if path_suffix (ip_path ip_core_file) = ''.cxf''
      then ''fpga_file {'' @ to_tcl_path env (ip_path ip_core_file) project_folder @ ''}'' @ nl
      else [])"

text \<open>Lines 67 to 85: the body of the loop over the modules, \<open>tcl\<close> the text so far.\<close>

definition add_module :: "env \<Rightarrow> path \<Rightarrow> string \<Rightarrow> arguments \<Rightarrow> string \<Rightarrow> module \<Rightarrow> string" where
  "add_module env project_folder top' other_arguments tcl m =
     (let synthesis_files =
            sort_reverse (\<lambda>hdl_file. path_stem (hdl_path hdl_file) = top')
              (get_synthesis_files m other_arguments);
          tcl1 = foldl (\<lambda>tcl hdl_file. tcl @ hdl_statement env project_folder top' m hdl_file)
                   tcl synthesis_files
      in foldl (\<lambda>tcl ip_core_file. tcl @ ip_core_statement env project_folder ip_core_file)
           tcl1 (get_ip_core_files m other_arguments))"

text \<open>Lines 87 and 88: the statement of one project constraint.\<close>

definition constraint_statement :: "env \<Rightarrow> path \<Rightarrow> constraint \<Rightarrow> string" where
  "constraint_statement env project_folder c =
     ''fpga_file {'' @ to_tcl_path env (cfile c) project_folder @ ''}'' @ nl"

text \<open>Lines 90 to 102: the placeholders of the template, replaced one after the other.\<close>

definition fill_template ::
    "string \<Rightarrow> string \<Rightarrow> string \<Rightarrow> string \<Rightarrow> part_fields \<Rightarrow> string \<Rightarrow> path \<Rightarrow> string \<Rightarrow> string"
where
  "fill_template template name part family segments top' project_folder tcl =
     (let r1 = replace ''__project__'' name template;
          r2 = replace ''__part__'' part r1;
          r3 = replace ''__family__'' family r2;
          r4 = replace ''__device__'' (part_device segments) r3;
          r5 = replace ''__package__'' (part_package segments) r4;
          r6 = replace ''__speed__'' (part_speed segments) r5;
          r7 = replace ''__temp_range__'' (part_temp_range segments) r6;
          r8 = replace ''__top__'' top' r7;
          r9 = replace ''__destination__'' (path_str project_folder) r8
      in replace ''__fpga_files__'' tcl r9)"

text \<open>
  \<^verbatim>\<open>LiberoTcl.create\<close>. The result is the module list as the in-place sort leaves it
  and the text of the script. An argument with the default \<^verbatim>\<open>None\<close> is an option;
  iterating over \<^verbatim>\<open>None\<close> constraints raises \<^verbatim>\<open>TypeError\<close>. The assignment
  \<^verbatim>\<open>self.top = top\<close> is read by the helper methods only, which \<^verbatim>\<open>create\<close> does
  not call; the top is passed where it is used.
\<close>

definition tcl_create ::
    "env \<Rightarrow> string \<Rightarrow> path \<Rightarrow> module list \<Rightarrow> string \<Rightarrow> string \<Rightarrow> string \<Rightarrow> int \<Rightarrow>
     generics option \<Rightarrow> constraint list option \<Rightarrow> path list option \<Rightarrow>
     build_step_hook list option \<Rightarrow> path option \<Rightarrow> bool \<Rightarrow> bool \<Rightarrow> arguments option \<Rightarrow>
     error + (module list \<times> string)"
where
  "tcl_create env name project_folder modules part family top' run_index generics constraints
     tcl_sources build_step_hooks ip_cache_path disable_io_buffers ip_cores_only other_arguments =
     (case decompose_part part of
        Inl e \<Rightarrow> Inl e
      | Inr segments \<Rightarrow>
          (let generics1 = (case generics of None \<Rightarrow> [] | Some g \<Rightarrow> g);
               other_arguments1 = (case other_arguments of None \<Rightarrow> Map.empty | Some a \<Rightarrow> a);
               modules1 = sort_reverse (\<lambda>m. mod_name m = top') modules;
               tcl = foldl (add_module env project_folder top' other_arguments1) [] modules1
           in (case constraints of
                 None \<Rightarrow> Inl (TypeError ''NoneType object is not iterable'')
               | Some cs \<Rightarrow>
                   (let tcl1 = foldl (\<lambda>tcl c. tcl @ constraint_statement env project_folder c) tcl cs
                    in Inr (modules1,
                            fill_template (template_tcl env) name part family segments top'
                              project_folder tcl1)))))"



text \<open>
  \<^verbatim>\<open>LiberoTcl._add_constraints\<close>, lines 172 to 191. The path of every constraint is
  formatted first, by a call of \<^verbatim>\<open>to_tcl_path\<close> with the file alone.
\<close>

fun add_constraints_loop :: "env \<Rightarrow> bool \<Rightarrow> string \<Rightarrow> constraint list \<Rightarrow> error + string" where
  "add_constraints_loop env skip_tcl tcl [] = Inr tcl"
| "add_constraints_loop env skip_tcl tcl (c # cs) =
     (case call_to_tcl_path env (cfile c) None of
        Inl e \<Rightarrow> Inl e
      | Inr constraint_file \<Rightarrow>
          (if path_suffix (cfile c) = ''.pdc''
           then add_constraints_loop env skip_tcl
                  (tcl @ tab @ ''create_links -pdc {'' @ constraint_file @ ''}'' @ nl) cs
           else if path_suffix (cfile c) = ''.sdc''
           then add_constraints_loop env skip_tcl
                  (tcl @ tab @ ''create_links -sdc {'' @ constraint_file @ ''}'' @ nl) cs
           else if path_suffix (cfile c) = ''.tcl''
           then (if skip_tcl then add_constraints_loop env skip_tcl tcl cs
                 else add_constraints_loop env skip_tcl
                        (tcl @ tab @ ''source -notrace {'' @ constraint_file @ ''}'' @ nl) cs)
           else Inl (UnsupportedConstraintKind (cfile c))))"

definition add_constraints :: "env \<Rightarrow> constraint list \<Rightarrow> bool \<Rightarrow> error + string" where
  "add_constraints env constraints skip_tcl = add_constraints_loop env skip_tcl [] constraints"

section \<open>The file system\<close>

text \<open>
  The state that \<^verbatim>\<open>create\<close> changes: the folders that exist and the content of
  every file.
\<close>

record filesystem =
  dirs :: "path set"
  files :: "path \<rightharpoonup> string"

text \<open>\<^verbatim>\<open>path.exists()\<close>.\<close>

definition path_exists :: "filesystem \<Rightarrow> path \<Rightarrow> bool" where
  "path_exists fs p = (p \<in> dirs fs \<or> p \<in> dom (files fs))"

text \<open>\<^verbatim>\<open>path.parents\<close>, without the empty path.\<close>

definition ancestors :: "path \<Rightarrow> path list" where
  "ancestors p = map (\<lambda>k. take k p) [1..<length p]"

text \<open>
  \<^verbatim>\<open>path.mkdir(parents=True)\<close>: the folder must not exist, every missing folder
  above it is made too, and a file in the way is an error.
\<close>

definition mkdir_parents :: "filesystem \<Rightarrow> path \<Rightarrow> error + filesystem" where
  "mkdir_parents fs p =
     (if path_exists fs p then Inl (OSError ''FileExistsError'')
      else if (\<exists>a \<in> set (ancestors p). a \<in> dom (files fs))
      then Inl (OSError ''NotADirectoryError'')
      else Inr (fs\<lparr>dirs := dirs fs \<union> set (ancestors p) \<union> {p}\<rparr>))"

text \<open>
  Modelled from the spec: \<^verbatim>\<open>create_file\<close> of \<^verbatim>\<open>tsfpga.system_utils\<close>, which is not
  among the sources. The description has the script written to a file of a fixed
  name inside the project folder; the model stores the text under the path.
\<close>

definition create_file :: "filesystem \<Rightarrow> path \<Rightarrow> string \<Rightarrow> filesystem" where
  "create_file fs p contents = fs\<lparr>files := (files fs)(p \<mapsto> contents)\<rparr>"

section \<open>The project descriptor of project.py\<close>

record libero_project =
  proj_name :: string
  proj_modules :: "module list"
  proj_part :: string
  proj_family :: string
  static_generics :: generics
  proj_constraints :: "constraint list"
  proj_tcl_sources :: "path list"
  proj_build_step_hooks :: "build_step_hook list"
  vivado_path :: "path option"
  default_run_index :: int
  defined_at :: "path option"
  proj_other_arguments :: "arguments option"
  is_netlist_build :: bool
  analyze_synthesis_timing :: bool
  report_logic_level_distribution :: bool
  proj_ip_cores_only :: bool
  proj_top :: string

text \<open>
  \<^verbatim>\<open>LiberoProject.__init__\<close>, lines 81 to 106. The copies of the mutable arguments
  are the values themselves. The \<^verbatim>\<open>LiberoTcl\<close> object holds the name only, so the
  descriptor's name stands for it.
\<close>

definition LiberoProject_init ::
    "string \<Rightarrow> module list \<Rightarrow> string \<Rightarrow> string \<Rightarrow> string option \<Rightarrow> generics option \<Rightarrow>
     constraint list option \<Rightarrow> path list option \<Rightarrow> build_step_hook list option \<Rightarrow>
     path option \<Rightarrow> int \<Rightarrow> path option \<Rightarrow> arguments option \<Rightarrow> libero_project"
where
  "LiberoProject_init name modules part family top' generics constraints tcl_sources
     build_step_hooks vivado_path' default_run_index' defined_at' other_arguments =
     \<lparr>proj_name = name,
      proj_modules = modules,
      proj_part = part,
      proj_family = family,
      static_generics = (case generics of None \<Rightarrow> [] | Some g \<Rightarrow> g),
      proj_constraints = (case constraints of None \<Rightarrow> [] | Some c \<Rightarrow> c),
      proj_tcl_sources = (case tcl_sources of None \<Rightarrow> [] | Some t \<Rightarrow> t),
      proj_build_step_hooks = (case build_step_hooks of None \<Rightarrow> [] | Some h \<Rightarrow> h),
      vivado_path = vivado_path',
      default_run_index = default_run_index',
      defined_at = defined_at',
      proj_other_arguments = (case other_arguments of None \<Rightarrow> None | Some a \<Rightarrow> Some a),
      is_netlist_build = False,
      analyze_synthesis_timing = True,
      report_logic_level_distribution = False,
      proj_ip_cores_only = False,
      proj_top = (case top' of None \<Rightarrow> ''top_'' @ name | Some t \<Rightarrow> t)\<rparr>"

text \<open>\<^verbatim>\<open>copy_and_combine_dicts\<close>, lines 297 to 313.\<close>

definition copy_and_combine_dicts :: "arguments option \<Rightarrow> arguments option \<Rightarrow> arguments option" where
  "copy_and_combine_dicts dict_first dict_second =
     (case (dict_first, dict_second) of
        (None, None) \<Rightarrow> None
      | (None, Some second) \<Rightarrow> Some second
      | (Some first, None) \<Rightarrow> Some first
      | (Some first, Some second) \<Rightarrow> Some (first ++ second))"

text \<open>
  \<^verbatim>\<open>LiberoProject._create_tcl\<close>, lines 129 to 156. The result is the path of the
  script or the exception, with the descriptor and the file system as the call leaves
  them.
\<close>

definition create_tcl ::
    "env \<Rightarrow> libero_project \<Rightarrow> path \<Rightarrow> path option \<Rightarrow> arguments option \<Rightarrow> filesystem \<Rightarrow>
     (error + path) \<times> libero_project \<times> filesystem"
where
  "create_tcl env self project_path ip_cache_path all_arguments fs =
     (if path_exists fs project_path then (Inl (DirectoryExists project_path), self, fs)
      else (case mkdir_parents fs project_path of
              Inl e \<Rightarrow> (Inl e, self, fs)
            | Inr fs1 \<Rightarrow>
                (let create_libero_project_tcl = path_child project_path ''create_libero_project.tcl''
                 in (case tcl_create env (proj_name self) project_path (proj_modules self)
                            (proj_part self) (proj_family self) (proj_top self)
                            (default_run_index self) (Some (static_generics self))
                            (Some (proj_constraints self)) (Some (proj_tcl_sources self))
                            (Some (proj_build_step_hooks self)) ip_cache_path
                            (is_netlist_build self) (proj_ip_cores_only self) all_arguments of
                       Inl e \<Rightarrow> (Inl e, self, fs1)
                     | Inr (modules1, tcl) \<Rightarrow>
                         (Inr create_libero_project_tcl,
                          self\<lparr>proj_modules := modules1\<rparr>,
                          create_file fs1 create_libero_project_tcl tcl)))))"

text \<open>
  The \<^verbatim>\<open>pre_create\<close> extension point: a subclass overrides the method, which gets
  the project path, the IP cache path and the merged arguments, may change the
  descriptor and the file system, and returns its verdict. The method of the base
  class changes nothing and returns \<^verbatim>\<open>True\<close>.
\<close>

type_synonym pre_create_hook =
  "libero_project \<Rightarrow> path \<Rightarrow> path option \<Rightarrow> arguments \<Rightarrow> filesystem \<Rightarrow>
   bool \<times> libero_project \<times> filesystem"

definition pre_create :: pre_create_hook where
  "pre_create self project_path ip_cache_path kwargs fs = (True, self, fs)"

text \<open>
  \<^verbatim>\<open>LiberoProject.create\<close>, lines 186 to 219. The deep copy of the module list is the
  list itself. The arguments given at construction and at the call are merged, then
  \<open>generics\<close> and \<open>part\<close> are set in the merged bag. The hook is called with
  \<open>project_path\<close> and \<open>ip_cache_path\<close> as keywords next to the bag, which Python
  refuses when the bag holds one of the two names. The messages printed are left out.
\<close>

definition project_create ::
    "env \<Rightarrow> pre_create_hook \<Rightarrow> libero_project \<Rightarrow> path \<Rightarrow> path option \<Rightarrow> arguments \<Rightarrow>
     filesystem \<Rightarrow> (error + bool) \<times> libero_project \<times> filesystem"
where
  "project_create env hook self project_path ip_cache_path other_arguments fs =
     (case copy_and_combine_dicts (proj_other_arguments self) (Some other_arguments) of
        None \<Rightarrow> (Inl (AttributeError ''NoneType object has no attribute update''), self, fs)
      | Some combined \<Rightarrow>
          (let all_arguments =
                 combined(''generics'' \<mapsto> Generics (static_generics self),
                          ''part'' \<mapsto> Text (proj_part self))
           in if ''project_path'' \<in> dom all_arguments \<or> ''ip_cache_path'' \<in> dom all_arguments
              then (Inl (TypeError ''pre_create() got multiple values for keyword argument''),
                    self, fs)
              else (case hook self project_path ip_cache_path all_arguments fs of
                      (ok, self1, fs1) \<Rightarrow>
                        if \<not> ok then (Inr False, self1, fs1)
                        else (case create_tcl env self1 project_path ip_cache_path
                                     (Some all_arguments) fs1 of
                                (Inl e, self2, fs2) \<Rightarrow> (Inl e, self2, fs2)
                              | (Inr script, self2, fs2) \<Rightarrow> (Inr True, self2, fs2)))))"

section \<open>Sample inputs\<close>

text \<open>
  Concrete inputs on which the theorems below are evaluated: an environment in which
  every path is already written relative to the project folder, a module with two
  source files, a descriptor with two constraints, a hook that declines, and two file
  systems, an empty one and one that holds the script of an earlier run.
\<close>

definition sample_env :: env where
  "sample_env = \<lparr>resolve = (\<lambda>p. p), relpath = (\<lambda>p start. path_str p),
                  template_tcl = ''__top__ __speed__ __package__:__fpga_files__''\<rparr>"

definition sample_module :: module where
  "sample_module =
     \<lparr>mod_name = ''core'', library_name = ''core'',
      get_synthesis_files = (\<lambda>kwargs. [\<lparr>hdl_path = [''a.vhd'']\<rparr>, \<lparr>hdl_path = [''core.vhd'']\<rparr>]),
      get_ip_core_files = (\<lambda>kwargs. []),
      get_scoped_constraints = (\<lambda>kwargs. [])\<rparr>"

definition sample_project :: libero_project where
  "sample_project =
     LiberoProject_init ''p'' [] ''d-s-k'' ''fam'' (Some ''core'') None
       (Some [\<lparr>cfile = [''pins.pdc'']\<rparr>, \<lparr>cfile = [''x.foo'']\<rparr>]) None None None 1 None None"

definition declining_hook :: pre_create_hook where
  "declining_hook self project_path ip_cache_path kwargs fs = (False, self, fs)"

definition empty_fs :: filesystem where
  "empty_fs = \<lparr>dirs = {}, files = Map.empty\<rparr>"

definition existing_fs :: filesystem where
  "existing_fs = \<lparr>dirs = {[''out'']},
                   files = [[''out'', ''create_libero_project.tcl''] \<mapsto> ''first script'']\<rparr>"

definition sample_modules :: "module list" where
  "sample_modules =
     [sample_module\<lparr>mod_name := ''a'', library_name := ''a''\<rparr>,
      sample_module,
      sample_module\<lparr>mod_name := ''b'', library_name := ''b''\<rparr>]"

section \<open>Auxiliary facts\<close>

text \<open>A loop that appends one statement per element appends their concatenation.\<close>

lemma foldl_append_statements:
  "foldl (\<lambda>tcl x. tcl @ f x) tcl xs = tcl @ concat (map f xs)"
  by (induction xs arbitrary: tcl) simp_all

text \<open>
  A list sorted by a boolean key is its \<open>False\<close> elements followed by its \<open>True\<close>
  elements; with the stability of the sort this fixes the result of the reversed sort.
\<close>

lemma sorted_bool_partition:
  "sorted (map key ys) \<Longrightarrow> ys = filter (\<lambda>y. \<not> key y) ys @ filter key ys"
proof (induction ys)
  case Nil
  then show ?case by simp
next
  case (Cons y ys)
  then have tail: "ys = filter (\<lambda>y. \<not> key y) ys @ filter key ys"
    and above: "\<forall>z \<in> set ys. key y \<le> key z"
    by simp_all
  show ?case
  proof (cases "key y")
    case True
    with above have all: "\<forall>z \<in> set ys. key z" by auto
    then have "filter (\<lambda>y. \<not> key y) ys = []" and "filter key ys = ys"
      by (simp_all add: filter_empty_conv filter_id_conv)
    with True show ?thesis by simp
  next
    case False
    with tail show ?thesis by simp
  qed
qed

lemma sort_key_bool:
  "sort_key key xs = filter (\<lambda>y. \<not> key y) xs @ filter key xs"
proof -
  have s: "sorted (map key (sort_key key xs))" by simp
  have f: "filter (\<lambda>y. \<not> key y) (sort_key key xs) = filter (\<lambda>y. \<not> key y) xs"
    using sort_key_stable [of key False xs] by simp
  have t: "filter key (sort_key key xs) = filter key xs"
    using sort_key_stable [of key True xs] by simp
  from sorted_bool_partition [OF s] f t show ?thesis by simp
qed

lemma sort_reverse_partition:
  "sort_reverse key xs = filter key xs @ filter (\<lambda>x. \<not> key x) xs"
  by (simp add: sort_reverse_def sort_key_bool rev_filter)

lemma add_module_statements:
  "add_module env project_folder top' other_arguments tcl m =
     tcl @ concat (map (hdl_statement env project_folder top' m)
                     (sort_reverse (\<lambda>hdl_file. path_stem (hdl_path hdl_file) = top')
                        (get_synthesis_files m other_arguments)))
         @ concat (map (ip_core_statement env project_folder) (get_ip_core_files m other_arguments))"
  by (simp add: add_module_def Let_def foldl_append_statements)

lemma decompose_part_short:
  "length (split CHR ''-'' part) < 3 \<Longrightarrow> decompose_part part = Inl IndexError"
  by (auto simp: decompose_part_def index_def Let_def)

lemma decompose_part_long:
  "3 \<le> length (split CHR ''-'' part) \<Longrightarrow>
   decompose_part part =
     Inr \<lparr>part_device = split CHR ''-'' part ! 0, part_speed = split CHR ''-'' part ! 1,
          part_package = split CHR ''-'' part ! 2,
          part_temp_range = (if 3 < length (split CHR ''-'' part) then split CHR ''-'' part ! 3 else ''COM'')\<rparr>"
  by (auto simp: decompose_part_def index_def Let_def)

text \<open>The first constraint already stops \<^verbatim>\<open>_add_constraints\<close>.\<close>

lemma add_constraints_loop_nonempty:
  "cs \<noteq> [] \<Longrightarrow> add_constraints_loop env skip_tcl tcl cs =
     Inl (TypeError ''to_tcl_path() missing 1 required positional argument: project_folder'')"
  by (cases cs) (simp_all add: call_to_tcl_path_def)

lemma tcl_create_script:
  "decompose_part part = Inr segments \<Longrightarrow>
   tcl_create env name project_folder modules part family top' run_index generics (Some cs)
       tcl_sources build_step_hooks ip_cache_path disable_io_buffers ip_cores_only other_arguments =
     Inr (sort_reverse (\<lambda>m. mod_name m = top') modules,
          fill_template (template_tcl env) name part family segments top' project_folder
            (foldl (add_module env project_folder top'
                      (case other_arguments of None \<Rightarrow> Map.empty | Some a \<Rightarrow> a)) []
                   (sort_reverse (\<lambda>m. mod_name m = top') modules)
             @ concat (map (constraint_statement env project_folder) cs)))"
  by (simp add: tcl_create_def Let_def foldl_append_statements)

lemma sample_script:
  "tcl_create sample_env ''p'' [''out''] sample_modules ''d-s-k'' ''fam'' ''core'' 1 None
       (Some []) None None None False False None =
     Inr ([sample_module,
           sample_module\<lparr>mod_name := ''a'', library_name := ''a''\<rparr>,
           sample_module\<lparr>mod_name := ''b'', library_name := ''b''\<rparr>],
          ''core s k:fpga_file {core.vhd}'' @ nl @ ''fpga_file {a.vhd}'' @ nl @
          ''fpga_file {core.vhd} a'' @ nl @ ''fpga_file {a.vhd} a'' @ nl @
          ''fpga_file {core.vhd} b'' @ nl @ ''fpga_file {a.vhd} b'' @ nl)"
  by (simp add: tcl_create_def decompose_part_def index_def sort_reverse_partition sample_env_def
      sample_modules_def sample_module_def add_module_statements hdl_statement_def
      ip_core_statement_def path_stem_def path_name_def rfind_def
      constraint_statement_def to_tcl_path_def path_str_def fill_template_def startswith_def)

lemma create_tcl_exists:
  "path_exists fs project_path \<Longrightarrow>
   create_tcl env self project_path ip_cache_path all_arguments fs =
     (Inl (DirectoryExists project_path), self, fs)"
  by (simp add: create_tcl_def)

lemma files_mkdir_parents:
  "mkdir_parents fs p = Inr fs1 \<Longrightarrow> files fs1 = files fs"
  by (auto simp: mkdir_parents_def split: if_splits)

lemma create_tcl_malformed:
  assumes "length (split CHR ''-'' (proj_part self)) < 3"
  shows "(\<exists>e. fst (create_tcl env self project_path ip_cache_path all_arguments fs) = Inl e) \<and>
         files (snd (snd (create_tcl env self project_path ip_cache_path all_arguments fs))) = files fs"
  using assms
  by (auto simp: create_tcl_def tcl_create_def decompose_part_short files_mkdir_parents
      split: sum.splits)

lemma create_tcl_malformed_fresh:
  assumes "length (split CHR ''-'' (proj_part self)) < 3"
    and "mkdir_parents fs project_path = Inr fs1"
  shows "create_tcl env self project_path ip_cache_path all_arguments fs =
           (Inl MalformedPartIdentifier, self, fs1)"
  using assms
  by (auto simp: create_tcl_def tcl_create_def decompose_part_short mkdir_parents_def
      MalformedPartIdentifier_def split: if_splits)

lemma project_create_default_malformed:
  assumes "length (split CHR ''-'' (proj_part self)) < 3"
  shows "(\<exists>e. fst (project_create env pre_create self project_path ip_cache_path other_arguments fs) = Inl e) \<and>
         files (snd (snd (project_create env pre_create self project_path ip_cache_path other_arguments fs)))
           = files fs"
proof -
  obtain r s f where c: "create_tcl env self project_path ip_cache_path
      (Some ((case proj_other_arguments self of None \<Rightarrow> other_arguments | Some first \<Rightarrow> first ++ other_arguments)
         (''generics'' \<mapsto> Generics (static_generics self), ''part'' \<mapsto> Text (proj_part self)))) fs = (r, s, f)"
    by (cases "create_tcl env self project_path ip_cache_path
      (Some ((case proj_other_arguments self of None \<Rightarrow> other_arguments | Some first \<Rightarrow> first ++ other_arguments)
         (''generics'' \<mapsto> Generics (static_generics self), ''part'' \<mapsto> Text (proj_part self)))) fs") auto
  from create_tcl_malformed [OF assms, of env project_path ip_cache_path _ fs] c
  obtain e where "r = Inl e" and "files f = files fs"
    by (metis fst_conv snd_conv)
  with c show ?thesis
    by (auto simp: project_create_def pre_create_def copy_and_combine_dicts_def Let_def
        split: option.splits)
qed




section \<open>The claims\<close>

subsection \<open>C1: project constraints in the assembled script\<close>

text \<open>
  Claim C1 has every project constraint routed by suffix during assembly, with a
  failure for an unknown suffix. \<^verbatim>\<open>LiberoTcl.create\<close> does not route: on a \<open>.pdc\<close>
  and a \<open>.foo\<close> constraint it succeeds and registers both as plain files.
\<close>

theorem constraints_unrouted_counterexample:
  "tcl_create sample_env ''p'' [''out''] [] ''d-s-k'' ''fam'' ''core'' 1 None
       (Some [\<lparr>cfile = [''pins.pdc'']\<rparr>, \<lparr>cfile = [''x.foo'']\<rparr>]) None None None False False None
     = Inr ([], ''core s k:fpga_file {pins.pdc}'' @ nl @ ''fpga_file {x.foo}'' @ nl) \<and>
   tcl_create sample_env ''p'' [''out''] [] ''d-s-k'' ''fam'' ''core'' 1 None
       (Some [\<lparr>cfile = [''pins.pdc'']\<rparr>, \<lparr>cfile = [''x.foo'']\<rparr>]) None None None False False None
     \<noteq> Inl (UnsupportedConstraintKind [''x.foo''])"
  by (simp add: tcl_create_def decompose_part_def index_def sort_reverse_def sample_env_def
      constraint_statement_def to_tcl_path_def path_str_def fill_template_def startswith_def)

text \<open>
  Claim C1, as the code has it: when the part string decomposes, every project
  constraint contributes, after the statements of the modules and in the given order,
  the statement \<open>fpga_file {path}\<close> with its path relative to the project folder,
  whatever its suffix, and the assembly succeeds.
\<close>

theorem constraints_registered_as_files:
  "decompose_part part = Inr segments \<Longrightarrow>
   tcl_create env name project_folder modules part family top' run_index generics (Some cs)
       tcl_sources build_step_hooks ip_cache_path disable_io_buffers ip_cores_only other_arguments =
     Inr (sort_reverse (\<lambda>m. mod_name m = top') modules,
          fill_template (template_tcl env) name part family segments top' project_folder
            (foldl (add_module env project_folder top'
                      (case other_arguments of None \<Rightarrow> Map.empty | Some a \<Rightarrow> a)) []
                   (sort_reverse (\<lambda>m. mod_name m = top') modules)
             @ concat (map (\<lambda>c. ''fpga_file {'' @ to_tcl_path env (cfile c) project_folder @ ''}'' @ nl)
                         cs)))"
proof -
  have statement: "constraint_statement env project_folder =
      (\<lambda>c. ''fpga_file {'' @ to_tcl_path env (cfile c) project_folder @ ''}'' @ nl)"
    by (rule ext) (simp add: constraint_statement_def)
  assume "decompose_part part = Inr segments"
  then show ?thesis
    unfolding statement [symmetric] by (rule tcl_create_script)
qed

text \<open>The theorem of C1 at a \<open>.sdc\<close> and a \<open>.tcl\<close> constraint.\<close>

theorem constraints_registered_as_files_witness:
  "decompose_part ''d-s-k'' =
     Inr \<lparr>part_device = ''d'', part_speed = ''s'', part_package = ''k'', part_temp_range = ''COM''\<rparr> \<and>
   tcl_create sample_env ''p'' [''out''] [] ''d-s-k'' ''fam'' ''core'' 1 None
       (Some [\<lparr>cfile = [''t.sdc'']\<rparr>, \<lparr>cfile = [''setup.tcl'']\<rparr>]) None None None False False None
     = Inr ([], ''core s k:fpga_file {t.sdc}'' @ nl @ ''fpga_file {setup.tcl}'' @ nl)"
proof -
  have d: "decompose_part ''d-s-k'' =
     Inr \<lparr>part_device = ''d'', part_speed = ''s'', part_package = ''k'', part_temp_range = ''COM''\<rparr>"
    by (simp add: decompose_part_def index_def)
  show ?thesis
    using d constraints_registered_as_files [OF d, of sample_env "''p''" "[''out'']" "[]" "''fam''"
        "''core''" 1 None "[\<lparr>cfile = [''t.sdc'']\<rparr>, \<lparr>cfile = [''setup.tcl'']\<rparr>]" None None None
        False False None]
    by (simp add: sort_reverse_def sample_env_def to_tcl_path_def path_str_def fill_template_def
        startswith_def)
qed

subsection \<open>C2: the segments of the part string\<close>

text \<open>
  Claim C2 reads the second segment of \<open>xc7z020-clg400-1-COM\<close> as the package and the
  third as the speed. The code assigns them the other way round.
\<close>

theorem part_decomposition_counterexample:
  "decompose_part ''xc7z020-clg400-1-COM'' \<noteq>
     Inr \<lparr>part_device = ''xc7z020'', part_speed = ''1'', part_package = ''clg400'',
          part_temp_range = ''COM''\<rparr>"
  by (simp add: decompose_part_def index_def)

text \<open>
  Claim C2, as the code has it: the part string is split on dashes into device, speed
  and package, in this order, so \<open>xc7z020-clg400-1-COM\<close> gives the device
  \<open>xc7z020\<close>, the speed \<open>clg400\<close>, the package \<open>1\<close> and the temperature range
  \<open>COM\<close>; with exactly three segments the temperature range is \<open>COM\<close>, with more it
  is the fourth segment.
\<close>

theorem part_decomposition:
  "decompose_part ''xc7z020-clg400-1-COM'' =
     Inr \<lparr>part_device = ''xc7z020'', part_speed = ''clg400'', part_package = ''1'',
          part_temp_range = ''COM''\<rparr> \<and>
   (length (split CHR ''-'' part) = 3 \<longrightarrow>
      decompose_part part =
        Inr \<lparr>part_device = split CHR ''-'' part ! 0, part_speed = split CHR ''-'' part ! 1,
             part_package = split CHR ''-'' part ! 2, part_temp_range = ''COM''\<rparr>) \<and>
   (3 < length (split CHR ''-'' part) \<longrightarrow>
      decompose_part part =
        Inr \<lparr>part_device = split CHR ''-'' part ! 0, part_speed = split CHR ''-'' part ! 1,
             part_package = split CHR ''-'' part ! 2, part_temp_range = split CHR ''-'' part ! 3\<rparr>)"
proof (intro conjI impI)
  show "decompose_part ''xc7z020-clg400-1-COM'' =
     Inr \<lparr>part_device = ''xc7z020'', part_speed = ''clg400'', part_package = ''1'',
          part_temp_range = ''COM''\<rparr>"
    by (simp add: decompose_part_def index_def)
qed (simp_all add: decompose_part_long)

text \<open>The theorem of C2 at a part string of three segments and at one of four.\<close>

theorem part_decomposition_witness:
  "length (split CHR ''-'' ''M2S010-1-VF400'') = 3 \<and>
   decompose_part ''M2S010-1-VF400'' =
     Inr \<lparr>part_device = ''M2S010'', part_speed = ''1'', part_package = ''VF400'',
          part_temp_range = ''COM''\<rparr> \<and>
   3 < length (split CHR ''-'' ''M2S010-1-VF400-IND'') \<and>
   decompose_part ''M2S010-1-VF400-IND'' =
     Inr \<lparr>part_device = ''M2S010'', part_speed = ''1'', part_package = ''VF400'',
          part_temp_range = ''IND''\<rparr>"
  using part_decomposition [of "''M2S010-1-VF400''"] part_decomposition [of "''M2S010-1-VF400-IND''"]
  by simp

subsection \<open>C3: a declining hook\<close>

text \<open>
  Claim C3 has the project folder created before the hook is asked. The code asks the
  hook first: with a declining hook on an empty file system, \<^verbatim>\<open>create\<close> returns
  \<^verbatim>\<open>False\<close> and the folder does not exist afterwards.
\<close>

theorem hook_gating_counterexample:
  "project_create sample_env declining_hook sample_project [''out''] None Map.empty empty_fs
     = (Inr False, sample_project, empty_fs) \<and>
   \<not> path_exists empty_fs [''out'']"
  by (simp add: project_create_def copy_and_combine_dicts_def declining_hook_def sample_project_def
      LiberoProject_init_def empty_fs_def path_exists_def)

text \<open>
  Claim C3, as the code has it: when the hook is called and returns a falsy result,
  \<^verbatim>\<open>create\<close> returns \<^verbatim>\<open>False\<close> without raising and leaves the descriptor and the
  file system exactly as the hook left them: no script is written and \<^verbatim>\<open>create\<close>
  itself makes no folder.
\<close>

theorem hook_gating:
  assumes "copy_and_combine_dicts (proj_other_arguments self) (Some other_arguments) = Some combined"
    and "kwargs = combined(''generics'' \<mapsto> Generics (static_generics self),
                           ''part'' \<mapsto> Text (proj_part self))"
    and "''project_path'' \<notin> dom kwargs" and "''ip_cache_path'' \<notin> dom kwargs"
    and "hook self project_path ip_cache_path kwargs fs = (False, self', fs')"
  shows "project_create env hook self project_path ip_cache_path other_arguments fs =
           (Inr False, self', fs')"
  using assms by (simp add: project_create_def Let_def)

text \<open>The theorem of C3 at a declining hook, on a nested project path.\<close>

theorem hook_gating_witness:
  "copy_and_combine_dicts (proj_other_arguments sample_project) (Some Map.empty) = Some Map.empty \<and>
   ''project_path'' \<notin> dom [''generics'' \<mapsto> Generics (static_generics sample_project),
                               ''part'' \<mapsto> Text (proj_part sample_project)] \<and>
   ''ip_cache_path'' \<notin> dom [''generics'' \<mapsto> Generics (static_generics sample_project),
                               ''part'' \<mapsto> Text (proj_part sample_project)] \<and>
   declining_hook sample_project [''build'', ''out''] None
       [''generics'' \<mapsto> Generics (static_generics sample_project),
        ''part'' \<mapsto> Text (proj_part sample_project)] existing_fs
     = (False, sample_project, existing_fs) \<and>
   project_create sample_env declining_hook sample_project [''build'', ''out''] None Map.empty existing_fs
     = (Inr False, sample_project, existing_fs)"
proof -
  have c: "copy_and_combine_dicts (proj_other_arguments sample_project) (Some Map.empty) = Some Map.empty"
    by (simp add: copy_and_combine_dicts_def sample_project_def LiberoProject_init_def)
  have p: "''project_path'' \<notin> dom [''generics'' \<mapsto> Generics (static_generics sample_project),
                               ''part'' \<mapsto> Text (proj_part sample_project)]"
    by simp
  have i: "''ip_cache_path'' \<notin> dom [''generics'' \<mapsto> Generics (static_generics sample_project),
                               ''part'' \<mapsto> Text (proj_part sample_project)]"
    by simp
  have h: "declining_hook sample_project [''build'', ''out''] None
       [''generics'' \<mapsto> Generics (static_generics sample_project),
        ''part'' \<mapsto> Text (proj_part sample_project)] existing_fs
     = (False, sample_project, existing_fs)"
    by (simp add: declining_hook_def)
  from c p i h
    hook_gating [where env = sample_env and hook = declining_hook and self = sample_project
      and other_arguments = Map.empty and combined = Map.empty
      and kwargs = "[''generics'' \<mapsto> Generics (static_generics sample_project),
                     ''part'' \<mapsto> Text (proj_part sample_project)]"
      and project_path = "[''build'', ''out'']" and ip_cache_path = None and fs = existing_fs
      and self' = sample_project and fs' = existing_fs]
  show ?thesis by blast
qed

subsection \<open>C4: the constraint router\<close>

text \<open>
  Claim C4 describes the routing by suffix that \<^verbatim>\<open>_add_constraints\<close> is written to
  do. As the method stands, it formats the path of each constraint with a call of
  \<^verbatim>\<open>to_tcl_path\<close> that lacks the required project folder, so a single \<open>.pdc\<close>
  constraint already ends in a \<^verbatim>\<open>TypeError\<close> and no statement is returned.
\<close>

theorem constraint_router_type_error:
  "add_constraints env [\<lparr>cfile = [''pins.pdc'']\<rparr>] skip_tcl =
     Inl (TypeError ''to_tcl_path() missing 1 required positional argument: project_folder'') \<and>
   add_constraints env [\<lparr>cfile = [''x.foo'']\<rparr>] skip_tcl =
     Inl (TypeError ''to_tcl_path() missing 1 required positional argument: project_folder'')"
  by (simp add: add_constraints_def call_to_tcl_path_def)

subsection \<open>C5: the top module and the top file come first\<close>

text \<open>
  Claim C5: the modules named like the top come first and the others keep their
  order, and in every module the source files whose stem is the top come first and
  the others keep their order. The ordered module list is the one \<^verbatim>\<open>create\<close>
  walks, and the statements of a module follow the ordered file list.
\<close>

theorem top_first_order:
  "sort_reverse (\<lambda>m. mod_name m = top') modules =
     filter (\<lambda>m. mod_name m = top') modules @ filter (\<lambda>m. mod_name m \<noteq> top') modules \<and>
   sort_reverse (\<lambda>hdl_file. path_stem (hdl_path hdl_file) = top') synthesis_files =
     filter (\<lambda>hdl_file. path_stem (hdl_path hdl_file) = top') synthesis_files @
     filter (\<lambda>hdl_file. path_stem (hdl_path hdl_file) \<noteq> top') synthesis_files \<and>
   (tcl_create env name project_folder modules part family top' run_index generics constraints
        tcl_sources build_step_hooks ip_cache_path disable_io_buffers ip_cores_only other_arguments
      = Inr (ordered, script) \<longrightarrow>
    ordered = filter (\<lambda>m. mod_name m = top') modules @ filter (\<lambda>m. mod_name m \<noteq> top') modules) \<and>
   add_module env project_folder top' kwargs tcl m =
     tcl @ concat (map (hdl_statement env project_folder top' m)
                     (filter (\<lambda>hdl_file. path_stem (hdl_path hdl_file) = top')
                        (get_synthesis_files m kwargs) @
                      filter (\<lambda>hdl_file. path_stem (hdl_path hdl_file) \<noteq> top')
                        (get_synthesis_files m kwargs)))
         @ concat (map (ip_core_statement env project_folder) (get_ip_core_files m kwargs))"
proof (intro conjI impI)
  assume "tcl_create env name project_folder modules part family top' run_index generics constraints
        tcl_sources build_step_hooks ip_cache_path disable_io_buffers ip_cores_only other_arguments
      = Inr (ordered, script)"
  then have "ordered = sort_reverse (\<lambda>m. mod_name m = top') modules"
    by (auto simp: tcl_create_def Let_def split: sum.splits option.splits)
  then show "ordered = filter (\<lambda>m. mod_name m = top') modules @ filter (\<lambda>m. mod_name m \<noteq> top') modules"
    by (simp add: sort_reverse_partition)
qed (simp_all add: sort_reverse_partition add_module_statements)

text \<open>The theorem of C5 at three modules, the second of which is the top.\<close>

theorem top_first_order_witness:
  "tcl_create sample_env ''p'' [''out''] sample_modules ''d-s-k'' ''fam'' ''core'' 1 None
       (Some []) None None None False False None =
     Inr ([sample_module,
           sample_module\<lparr>mod_name := ''a'', library_name := ''a''\<rparr>,
           sample_module\<lparr>mod_name := ''b'', library_name := ''b''\<rparr>],
          ''core s k:fpga_file {core.vhd}'' @ nl @ ''fpga_file {a.vhd}'' @ nl @
          ''fpga_file {core.vhd} a'' @ nl @ ''fpga_file {a.vhd} a'' @ nl @
          ''fpga_file {core.vhd} b'' @ nl @ ''fpga_file {a.vhd} b'' @ nl) \<and>
   [sample_module,
    sample_module\<lparr>mod_name := ''a'', library_name := ''a''\<rparr>,
    sample_module\<lparr>mod_name := ''b'', library_name := ''b''\<rparr>] =
   filter (\<lambda>m. mod_name m = ''core'') sample_modules @
   filter (\<lambda>m. mod_name m \<noteq> ''core'') sample_modules"
  using sample_script
    top_first_order [of "''core''" sample_modules "[]" sample_env "''p''" "[''out'']" "''d-s-k''"
      "''fam''" 1 None "Some []" None None None False False None
      "[sample_module,
        sample_module\<lparr>mod_name := ''a'', library_name := ''a''\<rparr>,
        sample_module\<lparr>mod_name := ''b'', library_name := ''b''\<rparr>]"
      "''core s k:fpga_file {core.vhd}'' @ nl @ ''fpga_file {a.vhd}'' @ nl @
          ''fpga_file {core.vhd} a'' @ nl @ ''fpga_file {a.vhd} a'' @ nl @
          ''fpga_file {core.vhd} b'' @ nl @ ''fpga_file {a.vhd} b'' @ nl"]
  by blast

subsection \<open>C6: the generic serializer\<close>


subsection \<open>C7: an existing project folder\<close>

text \<open>
  Claim C7 has every \<^verbatim>\<open>create\<close> call on an existing project path fail with the
  folder error. The hook is asked before the folder is looked at: with a declining
  hook the call returns \<^verbatim>\<open>False\<close> and raises nothing.
\<close>

theorem directory_exists_counterexample:
  "path_exists existing_fs [''out''] \<and>
   project_create sample_env declining_hook sample_project [''out''] None Map.empty existing_fs
     = (Inr False, sample_project, existing_fs) \<and>
   fst (project_create sample_env declining_hook sample_project [''out''] None Map.empty existing_fs)
     \<noteq> Inl (DirectoryExists [''out''])"
  by (simp add: project_create_def copy_and_combine_dicts_def declining_hook_def sample_project_def
      LiberoProject_init_def existing_fs_def path_exists_def)

text \<open>
  Claim C7, as the code has it: when the hook has returned a truthy result, as the
  hook of the base class does, and the project path exists then, \<^verbatim>\<open>create\<close> fails
  with the folder error and writes nothing: the file system is as the hook left it,
  so an earlier script is unchanged. \<^verbatim>\<open>_create_tcl\<close> alone fails so on every
  existing path.
\<close>

theorem directory_safety:
  assumes "copy_and_combine_dicts (proj_other_arguments self) (Some other_arguments) = Some combined"
    and "kwargs = combined(''generics'' \<mapsto> Generics (static_generics self),
                           ''part'' \<mapsto> Text (proj_part self))"
    and "''project_path'' \<notin> dom kwargs" and "''ip_cache_path'' \<notin> dom kwargs"
    and "hook self project_path ip_cache_path kwargs fs = (True, self', fs')"
    and "path_exists fs' project_path"
  shows "project_create env hook self project_path ip_cache_path other_arguments fs =
           (Inl (DirectoryExists project_path), self', fs') \<and>
         create_tcl env self' project_path ip_cache_path all_arguments fs' =
           (Inl (DirectoryExists project_path), self', fs')"
  using assms by (simp add: project_create_def Let_def create_tcl_exists)

text \<open>The theorem of C7 at the hook of the base class and the script of an earlier run.\<close>

theorem directory_safety_witness:
  "copy_and_combine_dicts (proj_other_arguments sample_project) (Some Map.empty) = Some Map.empty \<and>
   ''project_path'' \<notin> dom [''generics'' \<mapsto> Generics (static_generics sample_project),
                               ''part'' \<mapsto> Text (proj_part sample_project)] \<and>
   ''ip_cache_path'' \<notin> dom [''generics'' \<mapsto> Generics (static_generics sample_project),
                               ''part'' \<mapsto> Text (proj_part sample_project)] \<and>
   pre_create sample_project [''out''] None
       [''generics'' \<mapsto> Generics (static_generics sample_project),
        ''part'' \<mapsto> Text (proj_part sample_project)] existing_fs
     = (True, sample_project, existing_fs) \<and>
   path_exists existing_fs [''out''] \<and>
   project_create sample_env pre_create sample_project [''out''] None Map.empty existing_fs
     = (Inl (DirectoryExists [''out'']), sample_project, existing_fs) \<and>
   files existing_fs [''out'', ''create_libero_project.tcl''] = Some ''first script''"
proof -
  have c: "copy_and_combine_dicts (proj_other_arguments sample_project) (Some Map.empty) = Some Map.empty"
    by (simp add: copy_and_combine_dicts_def sample_project_def LiberoProject_init_def)
  have p: "''project_path'' \<notin> dom [''generics'' \<mapsto> Generics (static_generics sample_project),
                               ''part'' \<mapsto> Text (proj_part sample_project)]"
    by simp
  have i: "''ip_cache_path'' \<notin> dom [''generics'' \<mapsto> Generics (static_generics sample_project),
                               ''part'' \<mapsto> Text (proj_part sample_project)]"
    by simp
  have h: "pre_create sample_project [''out''] None
       [''generics'' \<mapsto> Generics (static_generics sample_project),
        ''part'' \<mapsto> Text (proj_part sample_project)] existing_fs
     = (True, sample_project, existing_fs)"
    by (simp add: pre_create_def)
  have e: "path_exists existing_fs [''out'']"
    by (simp add: path_exists_def existing_fs_def)
  have f: "files existing_fs [''out'', ''create_libero_project.tcl''] = Some ''first script''"
    by (simp add: existing_fs_def)
  from c p i h e f
    directory_safety [where env = sample_env and hook = pre_create and self = sample_project
      and other_arguments = Map.empty and combined = Map.empty
      and kwargs = "[''generics'' \<mapsto> Generics (static_generics sample_project),
                     ''part'' \<mapsto> Text (proj_part sample_project)]"
      and project_path = "[''out'']" and ip_cache_path = None and fs = existing_fs
      and self' = sample_project and fs' = existing_fs]
  show ?thesis by blast
qed

subsection \<open>C8: a part string with fewer than three segments\<close>

text \<open>
  Claim C8: with fewer than three segments in the part string, \<^verbatim>\<open>LiberoTcl.create\<close>
  fails with the index error whatever its other arguments are; \<^verbatim>\<open>_create_tcl\<close> and
  \<^verbatim>\<open>create\<close> with the hook of the base class then fail too and leave the content
  of every file as it was, and on a fresh project path the error of \<^verbatim>\<open>_create_tcl\<close>
  is the index error, raised after the folder is made and before the script is
  written.
\<close>

theorem malformed_part:
  assumes "length (split CHR ''-'' (proj_part self)) < 3"
  shows "tcl_create env name project_folder modules (proj_part self) family top' run_index generics
           constraints tcl_sources build_step_hooks ip_cache_path disable_io_buffers ip_cores_only
           other_arguments = Inl MalformedPartIdentifier \<and>
         (\<exists>e. fst (create_tcl env self project_path ip_cache_path all_arguments fs) = Inl e) \<and>
         files (snd (snd (create_tcl env self project_path ip_cache_path all_arguments fs))) = files fs \<and>
         (\<forall>fs'. mkdir_parents fs project_path = Inr fs' \<longrightarrow>
            create_tcl env self project_path ip_cache_path all_arguments fs =
              (Inl MalformedPartIdentifier, self, fs')) \<and>
         (\<exists>e. fst (project_create env pre_create self project_path ip_cache_path kwargs fs) = Inl e) \<and>
         files (snd (snd (project_create env pre_create self project_path ip_cache_path kwargs fs)))
           = files fs"
proof -
  have "tcl_create env name project_folder modules (proj_part self) family top' run_index generics
           constraints tcl_sources build_step_hooks ip_cache_path disable_io_buffers ip_cores_only
           other_arguments = Inl MalformedPartIdentifier"
    using assms by (simp add: tcl_create_def decompose_part_short MalformedPartIdentifier_def)
  with create_tcl_malformed [OF assms] create_tcl_malformed_fresh [OF assms]
    project_create_default_malformed [OF assms]
  show ?thesis by blast
qed

text \<open>The theorem of C8 at the part string \<open>xc7z020clg400-1\<close> of two segments.\<close>

theorem malformed_part_witness:
  "length (split CHR ''-'' (proj_part (sample_project\<lparr>proj_part := ''xc7z020clg400-1''\<rparr>))) < 3 \<and>
   tcl_create sample_env ''p'' [''out''] [] (proj_part (sample_project\<lparr>proj_part := ''xc7z020clg400-1''\<rparr>))
       ''fam'' ''core'' 1 None (Some []) None None None False False None
     = Inl MalformedPartIdentifier \<and>
   mkdir_parents empty_fs [''out''] = Inr \<lparr>dirs = {[''out'']}, files = Map.empty\<rparr> \<and>
   create_tcl sample_env (sample_project\<lparr>proj_part := ''xc7z020clg400-1''\<rparr>) [''out''] None None empty_fs
     = (Inl MalformedPartIdentifier, sample_project\<lparr>proj_part := ''xc7z020clg400-1''\<rparr>,
        \<lparr>dirs = {[''out'']}, files = Map.empty\<rparr>)"
proof -
  have s: "length (split CHR ''-'' (proj_part (sample_project\<lparr>proj_part := ''xc7z020clg400-1''\<rparr>))) < 3"
    by simp
  have m: "mkdir_parents empty_fs [''out''] = Inr \<lparr>dirs = {[''out'']}, files = Map.empty\<rparr>"
    by (simp add: mkdir_parents_def empty_fs_def path_exists_def ancestors_def)
  from s m
    malformed_part [where self = "sample_project\<lparr>proj_part := ''xc7z020clg400-1''\<rparr>"
      and env = sample_env and name = "''p''" and project_folder = "[''out'']" and modules = "[]"
      and family = "''fam''" and top' = "''core''" and run_index = 1 and generics = None
      and constraints = "Some []" and tcl_sources = None and build_step_hooks = None
      and ip_cache_path = None and disable_io_buffers = False and ip_cores_only = False
      and other_arguments = None and project_path = "[''out'']" and all_arguments = None
      and fs = empty_fs and kwargs = Map.empty]
  show ?thesis by blast
qed

subsection \<open>C9: the top of a new descriptor\<close>

text \<open>
  Claim C9 has the top non-empty after every construction. A supplied top is taken
  as it is, also the empty string.
\<close>

theorem top_nonempty_counterexample:
  "proj_top (LiberoProject_init ''artyz7'' [] ''d-s-k'' ''fam'' (Some []) None None None None None 1 None None) = []"
  by (simp add: LiberoProject_init_def)

text \<open>
  Claim C9, as the code has it: the top is \<open>top_\<close> followed by the name when none is
  supplied and the supplied value otherwise; it is non-empty unless the empty string
  was supplied.
\<close>

theorem top_inferred:
  "proj_top (LiberoProject_init name modules part family None generics constraints tcl_sources
       build_step_hooks vivado_path' run_index defined_at' other_arguments) = ''top_'' @ name \<and>
   proj_top (LiberoProject_init name modules part family (Some t) generics constraints tcl_sources
       build_step_hooks vivado_path' run_index defined_at' other_arguments) = t \<and>
   (top' \<noteq> Some [] \<longrightarrow>
    proj_top (LiberoProject_init name modules part family top' generics constraints tcl_sources
       build_step_hooks vivado_path' run_index defined_at' other_arguments) \<noteq> [])"
  by (auto simp: LiberoProject_init_def split: option.splits)

text \<open>The theorem of C9 at a descriptor built without a top.\<close>

theorem top_inferred_witness:
  "(None :: string option) \<noteq> Some [] \<and>
   proj_top (LiberoProject_init ''artyz7'' [] ''d-s-k'' ''fam'' None None None None None None 1 None None)
     = ''top_artyz7'' \<and>
   proj_top (LiberoProject_init ''artyz7'' [] ''d-s-k'' ''fam'' None None None None None None 1 None None)
     \<noteq> []"
  using top_inferred [of "''artyz7''" "[]" "''d-s-k''" "''fam''" None None None None None 1 None None
      "''x''" None]
  by simp

subsection \<open>C10: inputs the script does not depend on\<close>


end
